theory Spec2Isabelle
  imports Complex_Main "HOL-Library.AList"
begin

section \<open>FarnDB: the document store of farndb.py\<close>

subsection \<open>Values\<close>

text \<open>
  The values a document holds are the values \<open>json.load\<close> produces and \<open>json.dump\<close>
  accepts. Python keeps \<open>int\<close> and \<open>float\<close> apart, and \<open>bool\<close> is a subclass of
  \<open>int\<close>. A finite float is the rational number it denotes (Python compares an \<open>int\<close>
  with a \<open>float\<close> by exact value); NaN and the infinities are left out. A dict is an
  association list in insertion order, as Python's dict is.
\<close>

datatype jvalue =
    JNull
  | JBool bool
  | JInt int
  | JFloat rat
  | JStr string
  | JList "jvalue list"
  | JObj "(string \<times> jvalue) list"

type_synonym dict = "(string \<times> jvalue) list"

text \<open>The number a numeric value stands for: \<open>True\<close> is 1 and \<open>False\<close> is 0.\<close>

fun num_of :: "jvalue \<Rightarrow> rat option" where
  "num_of (JBool b) = Some (if b then 1 else 0)"
| "num_of (JInt i) = Some (of_int i)"
| "num_of (JFloat r) = Some r"
| "num_of _ = None"

text \<open>
  Python's \<open>==\<close> on these values: \<open>None\<close> equals only \<open>None\<close>, a string only an equal
  string, lists are equal elementwise, dicts when they have the same keys with equal values,
  and the three numeric types compare by value.
\<close>

fun py_eq :: "jvalue \<Rightarrow> jvalue \<Rightarrow> bool" where
  "py_eq JNull y = (y = JNull)"
| "py_eq (JStr s) y = (y = JStr s)"
| "py_eq (JList xs) y = (case y of JList ys \<Rightarrow> list_all2 py_eq xs ys | _ \<Rightarrow> False)"
| "py_eq (JObj a) y =
     (case y of
        JObj b \<Rightarrow> length a = length b \<and>
          list_all (\<lambda>(k, v). case map_of b k of None \<Rightarrow> False | Some v' \<Rightarrow> py_eq v v') a
      | _ \<Rightarrow> False)"
| "py_eq x y = (case num_of y of None \<Rightarrow> False | Some r \<Rightarrow> num_of x = Some r)"

text \<open>\<open>doc.get(key)\<close>: the value, or \<open>None\<close> when the key is absent.\<close>

definition dict_get :: "dict \<Rightarrow> string \<Rightarrow> jvalue" where
  "dict_get d k = (case map_of d k of None \<Rightarrow> JNull | Some x \<Rightarrow> x)"

text \<open>\<open>doc.update(update_data)\<close>: every item of the patch is stored into the document.\<close>

definition dict_update :: "dict \<Rightarrow> dict \<Rightarrow> dict" where
  "dict_update d p = fold (\<lambda>(k, v). AList.update k v) p d"

subsection \<open>Identifiers\<close>

text \<open>\<open>str\<close> of an \<open>int\<close>: its decimal digits, with a minus sign when negative.\<close>

definition digit_char :: "nat \<Rightarrow> char" where
  "digit_char n = char_of (48 + n)"

fun digits :: "nat \<Rightarrow> string" where
  "digits n = (if n < 10 then [digit_char n] else digits (n div 10) @ [digit_char (n mod 10)])"

declare digits.simps [simp del]

definition str_int :: "int \<Rightarrow> string" where
  "str_int i = (if i < 0 then CHR ''-'' # digits (nat (- i)) else digits (nat i))"

subsection \<open>The engine and the objects it shares with its caller\<close>

text \<open>
  The engine never copies a document: \<open>insert\<close> appends the caller's own dict object,
  \<open>update\<close> changes the stored objects in place and \<open>find\<close> hands them out. Dict objects
  therefore live in a store, \<open>heap\<close>, and a collection is a list of addresses. The lists
  themselves and the values inside a document are held by value: a list or dict that is
  a value inside a document stands for its content, and the model does not represent
  that it may be the same object as a stored document or a collection's list.

  \<open>data\<close> is \<open>self.data\<close>, in insertion order. \<open>saved\<close> is what \<open>_save_data\<close> has handed to
  the file, newest first: each entry is the whole database as \<open>json.dump\<close> sees it at that
  moment. \<open>ticks\<close> counts the calls of \<open>time.time()\<close> so far; the clock itself is a
  parameter \<open>clk\<close> of the operations, \<open>clk n\<close> being the value of call number \<open>n\<close>.

  \<open>int(time.time() * 1000000)\<close> multiplies in floating point and truncates. That
  computation is not modelled: \<open>insert\<close> takes it as a parameter \<open>micros\<close>, the function
  from a reading to the integer the code computes from it, and nothing is assumed of it.
\<close>

type_synonym addr = nat

type_synonym image = "(string \<times> dict list) list"

record world =
  heap :: "addr \<Rightarrow> dict"
  data :: "(string \<times> addr list) list"
  saved :: "image list"
  ticks :: nat


definition time_time :: "(nat \<Rightarrow> rat) \<Rightarrow> world \<Rightarrow> rat \<times> world" where
  "time_time clk w = (clk (ticks w), w\<lparr>ticks := Suc (ticks w)\<rparr>)"

text \<open>\<open>d[k] = v\<close> on the dict object at address \<open>a\<close>, by the engine or by a caller holding it.\<close>

definition setitem :: "world \<Rightarrow> addr \<Rightarrow> string \<Rightarrow> jvalue \<Rightarrow> world" where
  "setitem w a k v = w\<lparr>heap := (heap w)(a := AList.update k v (heap w a))\<rparr>"

definition save_data :: "world \<Rightarrow> world" where
  "save_data w = w\<lparr>saved := map (\<lambda>(c, as). (c, map (heap w) as)) (data w) # saved w\<rparr>"

text \<open>
  \<open>self.data[collection_name]\<close>. Every use in the source follows a membership test or
  \<open>create_collection\<close>, so the \<open>KeyError\<close> of an absent name is never reached.
\<close>

definition documents :: "world \<Rightarrow> string \<Rightarrow> addr list" where
  "documents w c = (case map_of (data w) c of None \<Rightarrow> [] | Some as \<Rightarrow> as)"

definition create_collection :: "world \<Rightarrow> string \<Rightarrow> world" where
  "create_collection w c =
     (if map_of (data w) c = None then save_data (w\<lparr>data := AList.update c [] (data w)\<rparr>)
      else w)"

definition insert_db ::
  "(rat \<Rightarrow> int) \<Rightarrow> (nat \<Rightarrow> rat) \<Rightarrow> world \<Rightarrow> string \<Rightarrow> addr \<Rightarrow> world \<times> string" where
  "insert_db micros clk w c a =
     (let w1 = create_collection w c;
          (t0, w2) = time_time clk w1;
          doc_id = str_int (micros t0);
          w3 = setitem w2 a ''_id'' (JStr doc_id);
          (t1, w4) = time_time clk w3;
          w5 = setitem w4 a ''_created'' (JFloat t1);
          (t2, w6) = time_time clk w5;
          w7 = setitem w6 a ''_modified'' (JFloat t2);
          w8 = w7\<lparr>data := AList.update c (documents w7 c @ [a]) (data w7)\<rparr>
      in (save_data w8, doc_id))"

text \<open>The inner loop of \<open>find\<close> and \<open>update\<close>: the first failing pair ends it.\<close>

fun matches :: "dict \<Rightarrow> dict \<Rightarrow> bool" where
  "matches doc [] = True"
| "matches doc ((key, val) # query) =
     (case map_of doc key of
        None \<Rightarrow> False
      | Some x \<Rightarrow> if py_eq x val then matches doc query else False)"

fun find_loop :: "(addr \<Rightarrow> dict) \<Rightarrow> addr list \<Rightarrow> dict \<Rightarrow> addr list" where
  "find_loop h [] query = []"
| "find_loop h (a # as) query =
     (if matches (h a) query then a # find_loop h as query else find_loop h as query)"

definition find_db :: "world \<Rightarrow> string \<Rightarrow> dict option \<Rightarrow> addr list" where
  "find_db w c query =
     (if map_of (data w) c = None then []
      else case query of
             None \<Rightarrow> documents w c
           | Some q \<Rightarrow> find_loop (heap w) (documents w c) q)"

definition find_one :: "world \<Rightarrow> string \<Rightarrow> dict \<Rightarrow> addr option" where
  "find_one w c q = (case find_db w c (Some q) of [] \<Rightarrow> None | a # _ \<Rightarrow> Some a)"

fun update_loop ::
  "(nat \<Rightarrow> rat) \<Rightarrow> world \<Rightarrow> addr list \<Rightarrow> dict \<Rightarrow> dict \<Rightarrow> nat \<Rightarrow> world \<times> nat" where
  "update_loop clk w [] query update_data updated_count = (w, updated_count)"
| "update_loop clk w (a # as) query update_data updated_count =
     (if matches (heap w a) query then
        (let w1 = w\<lparr>heap := (heap w)(a := dict_update (heap w a) update_data)\<rparr>;
             (t, w2) = time_time clk w1;
             w3 = setitem w2 a ''_modified'' (JFloat t)
         in update_loop clk w3 as query update_data (updated_count + 1))
      else update_loop clk w as query update_data updated_count)"

definition update :: "(nat \<Rightarrow> rat) \<Rightarrow> world \<Rightarrow> string \<Rightarrow> dict \<Rightarrow> dict \<Rightarrow> world \<times> nat" where
  "update clk w c query update_data =
     (if map_of (data w) c = None then (w, 0)
      else (let (w1, updated_count) = update_loop clk w (documents w c) query update_data 0
            in if updated_count > 0 then (save_data w1, updated_count)
               else (w1, updated_count)))"

text \<open>The test of \<open>delete\<close>: \<open>all(doc.get(key) == value for key, value in query.items())\<close>.\<close>

definition delete_test :: "dict \<Rightarrow> dict \<Rightarrow> bool" where
  "delete_test doc query = list_all (\<lambda>(key, val). py_eq (dict_get doc key) val) query"

definition delete :: "world \<Rightarrow> string \<Rightarrow> dict \<Rightarrow> world \<times> nat" where
  "delete w c query =
     (if map_of (data w) c = None then (w, 0)
      else (let original_count = length (documents w c);
                w1 = w\<lparr>data := AList.update c
                        (filter (\<lambda>a. \<not> delete_test (heap w a) query) (documents w c))
                        (data w)\<rparr>;
                deleted_count = original_count - length (documents w1 c)
            in if deleted_count > 0 then (save_data w1, deleted_count)
               else (w1, deleted_count)))"

definition list_collections :: "world \<Rightarrow> string list" where
  "list_collections w = map fst (data w)"


definition count :: "world \<Rightarrow> string \<Rightarrow> dict option \<Rightarrow> nat" where
  "count w c query = length (find_db w c query)"

subsection \<open>What a collection holds, and runs of operations\<close>





datatype op = Insert string addr | Update string dict dict | Delete string dict

fun step :: "(rat \<Rightarrow> int) \<Rightarrow> (nat \<Rightarrow> rat) \<Rightarrow> world \<Rightarrow> op \<Rightarrow> world" where
  "step micros clk w (Insert c a) = fst (insert_db micros clk w c a)"
| "step micros clk w (Update c q p) = fst (update clk w c q p)"
| "step micros clk w (Delete c q) = fst (delete w c q)"






text \<open>The \<open>_id\<close> fields of the documents of a collection, in order.\<close>

definition stored_ids :: "world \<Rightarrow> string \<Rightarrow> jvalue option list" where
  "stored_ids w c = map (\<lambda>a. map_of (heap w a) ''_id'') (documents w c)"

text \<open>\<open>n\<close> inserts in a row into one collection, with the ids they return.\<close>

fun insert_many ::
  "(rat \<Rightarrow> int) \<Rightarrow> (nat \<Rightarrow> rat) \<Rightarrow> world \<Rightarrow> string \<Rightarrow> addr list \<Rightarrow> world \<times> string list" where
  "insert_many micros clk w c [] = (w, [])"
| "insert_many micros clk w c (a # as) =
     (let (w1, i) = insert_db micros clk w c a;
          (w2, is) = insert_many micros clk w1 c as
      in (w2, i # is))"

subsection \<open>A small database for concrete runs\<close>

text \<open>
  Two user documents, already inserted, in one collection; every other address holds an
  empty dict. The clock \<open>ex_clk\<close> advances by one second at every reading.
\<close>

definition ex_heap :: "addr \<Rightarrow> dict" where
  "ex_heap =
     (\<lambda>_. [])
       (0 := [(''name'', JStr ''Alice''), (''age'', JInt 30), (''_id'', JStr ''1000''),
              (''_created'', JFloat 1), (''_modified'', JFloat 1)],
        1 := [(''name'', JStr ''Bob''), (''flag'', JInt 1), (''_id'', JStr ''2000''),
              (''_created'', JFloat 2), (''_modified'', JFloat 2)],
        2 := [(''item'', JStr ''book''), (''_id'', JStr ''2500''),
              (''_created'', JFloat 2), (''_modified'', JFloat 2)])"

definition ex_world :: world where
  "ex_world = \<lparr>heap = ex_heap, data = [(''users'', [0, 1])], saved = [], ticks = 0\<rparr>"

definition ex_clk :: "nat \<Rightarrow> rat" where
  "ex_clk n = of_nat n + 3"

text \<open>
  The readings of the example clocks are whole seconds. For a whole number of seconds
  (below \<open>2^33\<close>) the float product \<open>t * 1000000\<close> is exact, so there
  \<open>int(t * 1000000)\<close> is the number below. The concrete runs use \<open>ex_micros\<close> at such
  readings only.
\<close>

definition ex_micros :: "rat \<Rightarrow> int" where
  "ex_micros t = \<lfloor>t * 1000000\<rfloor>"

text \<open>A clock that returns the same reading every time.\<close>

definition ex_frozen_clk :: "nat \<Rightarrow> rat" where
  "ex_frozen_clk n = 3"



section \<open>Properties\<close>

subsection \<open>Basic facts about the operations\<close>

lemma documents_lookup: "map_of (data w) c = Some as \<Longrightarrow> documents w c = as"
  by (simp add: documents_def)

lemma update_loop_no_match:
  "\<forall>a\<in>set as. \<not> matches (heap w a) q \<Longrightarrow> update_loop clk w as q p n = (w, n)"
  by (induction as) simp_all

lemma filter_keep_all: "\<forall>a\<in>set as. \<not> P a \<Longrightarrow> filter (\<lambda>a. \<not> P a) as = as"
  by (induction as) simp_all

lemma update_no_match:
  "\<forall>a\<in>set (documents w c). \<not> matches (heap w a) q \<Longrightarrow> update clk w c q p = (w, 0)"
  by (simp add: update_def update_loop_no_match)

lemma delete_no_match:
  assumes h: "\<forall>a\<in>set (documents w c). \<not> delete_test (heap w a) q"
  shows "delete w c q = (w, 0)"
proof (cases "map_of (data w) c")
  case None
  then show ?thesis by (simp add: delete_def)
next
  case (Some as)
  have d: "documents w c = as" using Some by (rule documents_lookup)
  have f: "filter (\<lambda>a. \<not> delete_test (heap w a) q) as = as"
    using h d filter_keep_all[of as "\<lambda>a. delete_test (heap w a) q"] by simp
  have u: "AList.update c as (data w) = data w" using Some by (rule AList.update_triv)
  show ?thesis using Some d f u by (simp add: delete_def Let_def documents_def)
qed

lemma ex_world_simps:
  "heap ex_world = ex_heap" "data ex_world = [(''users'', [0, 1])]"
  "saved ex_world = []" "ticks ex_world = 0"
  by (simp_all add: ex_world_def)


lemma ex_heap_simps:
  "ex_heap 0 = [(''name'', JStr ''Alice''), (''age'', JInt 30), (''_id'', JStr ''1000''),
              (''_created'', JFloat 1), (''_modified'', JFloat 1)]"
  "ex_heap (Suc 0) = [(''name'', JStr ''Bob''), (''flag'', JInt 1), (''_id'', JStr ''2000''),
              (''_created'', JFloat 2), (''_modified'', JFloat 2)]"
  "ex_heap 2 = [(''item'', JStr ''book''), (''_id'', JStr ''2500''),
              (''_created'', JFloat 2), (''_modified'', JFloat 2)]"
  "ex_heap 3 = []"
  by (simp_all add: ex_heap_def)

lemma matches_iff:
  "matches d q \<longleftrightarrow> (\<forall>(k, v)\<in>set q. \<exists>x. map_of d k = Some x \<and> py_eq x v)"
  by (induction q) (auto split: option.splits if_splits)

lemma find_loop_filter: "find_loop h as q = filter (\<lambda>a. matches (h a) q) as"
  by (induction as) simp_all

lemma find_db_filter:
  "find_db w c (Some q) = filter (\<lambda>a. matches (heap w a) q) (documents w c)"
  by (simp add: find_db_def find_loop_filter documents_def)



lemma heap_save_data: "heap (save_data w) = heap w"
  by (simp add: save_data_def)

lemma data_save_data: "data (save_data w) = data w"
  by (simp add: save_data_def)

lemma ticks_save_data: "ticks (save_data w) = ticks w"
  by (simp add: save_data_def)

text \<open>Python's equality seen from the query's side: what a stored value \<open>x\<close> must be.\<close>

lemma py_eq_str_right: "py_eq x (JStr s) \<longleftrightarrow> x = JStr s"
  by (cases x) (auto split: jvalue.splits)

lemma py_eq_null_right: "py_eq x JNull \<longleftrightarrow> x = JNull"
  by (cases x) (auto split: jvalue.splits)

lemma py_eq_int_right: "py_eq x (JInt i) \<longleftrightarrow> num_of x = Some (of_int i)"
  by (cases x) (auto split: jvalue.splits)

lemma py_eq_bool_right: "py_eq x (JBool b) \<longleftrightarrow> num_of x = Some (if b then 1 else 0)"
  by (cases x) (auto split: jvalue.splits)









text \<open>What each operation does to the store, to \<open>self.data\<close> and to the clock.\<close>

lemma update_loop_data: "data (fst (update_loop clk w as q p n)) = data w"
  by (induction as arbitrary: w n) (auto simp: time_time_def setitem_def Let_def)


lemma update_data: "data (fst (update clk w c q p)) = data w"
  by (simp add: update_def data_save_data update_loop_data split: prod.splits)
     (metis fst_conv update_loop_data)


lemma create_collection_heap: "heap (create_collection w c) = heap w"
  by (simp add: create_collection_def heap_save_data)

lemma create_collection_ticks: "ticks (create_collection w c) = ticks w"
  by (simp add: create_collection_def ticks_save_data)

lemma create_collection_map_of:
  "map_of (data (create_collection w c)) =
     (if map_of (data w) c = None then (map_of (data w))(c \<mapsto> []) else map_of (data w))"
  by (simp add: create_collection_def data_save_data AList.update_conv')

lemma insert_db_heap:
  "heap (fst (insert_db micros clk w c a)) =
     (heap w)(a := AList.update ''_modified'' (JFloat (clk (ticks w + 2)))
        (AList.update ''_created'' (JFloat (clk (ticks w + 1)))
          (AList.update ''_id'' (JStr (str_int (micros (clk (ticks w))))) (heap w a))))"
  by (simp add: insert_db_def Let_def time_time_def setitem_def heap_save_data
      create_collection_heap create_collection_ticks)

lemma insert_db_map_of:
  "map_of (data (fst (insert_db micros clk w c a))) = (map_of (data w))(c \<mapsto> documents w c @ [a])"
  by (auto simp: insert_db_def Let_def time_time_def setitem_def data_save_data
      AList.update_conv' documents_def create_collection_map_of)

lemma insert_db_ticks: "ticks (fst (insert_db micros clk w c a)) = ticks w + 3"
  by (simp add: insert_db_def Let_def time_time_def setitem_def ticks_save_data
      create_collection_ticks)

lemma insert_db_id: "snd (insert_db micros clk w c a) = str_int (micros (clk (ticks w)))"
  by (simp add: insert_db_def Let_def time_time_def setitem_def create_collection_ticks)






text \<open>The digits of the identifiers used in the concrete runs.\<close>

lemma digit_char_simps:
  "digit_char 0 = CHR ''0''" "digit_char 3 = CHR ''3''" "digit_char 6 = CHR ''6''"
  by (simp_all add: digit_char_def char_of_def bit_Suc_0_iff)

lemma str_int_3000000: "str_int 3000000 = ''3000000''"
  by (simp add: str_int_def digits.simps digit_char_simps)

lemma str_int_6000000: "str_int 6000000 = ''6000000''"
  by (simp add: str_int_def digits.simps digit_char_simps)

lemma ex_world_documents:
  "documents ex_world ''orders'' = []" "documents ex_world ''users'' = [0, 1]"
  by (simp_all add: documents_def ex_world_simps)

text \<open>\<open>str\<close> of an \<open>int\<close> is injective, so distinct readings give distinct identifiers.\<close>

lemma digit_char_inj: "n < 10 \<Longrightarrow> m < 10 \<Longrightarrow> digit_char n = digit_char m \<Longrightarrow> n = m"
proof -
  assume n: "n < 10" and m: "m < 10" and e: "digit_char n = digit_char m"
  have "of_char (char_of (48 + n)) = (of_char (char_of (48 + m)) :: nat)"
    using e by (simp add: digit_char_def)
  then have "(48 + n) mod 256 = (48 + m) mod 256" by (simp only: of_char_of)
  then show "n = m" using n m by simp
qed

lemma digit_char_not_minus: "n < 10 \<Longrightarrow> digit_char n \<noteq> CHR ''-''"
proof
  assume n: "n < 10" and e: "digit_char n = CHR ''-''"
  have l: "(of_char (char_of (48 + n)) :: nat) = (48 + n) mod 256" by (simp only: of_char_of)
  have r: "(of_char (CHR ''-'') :: nat) = 45" by simp
  from e have "char_of (48 + n) = CHR ''-''" by (simp add: digit_char_def)
  with l r have "(48 + n) mod 256 = 45" by simp
  with n show False by simp
qed

lemma digits_not_Nil: "digits n \<noteq> []"
  by (subst digits.simps) simp

lemma digits_no_minus: "CHR ''-'' \<notin> set (digits n)"
proof (induction n rule: digits.induct)
  case (1 n)
  show ?case
  proof (cases "n < 10")
    case True
    then show ?thesis using digit_char_not_minus[of n] by (subst digits.simps) auto
  next
    case False
    have "n mod 10 < 10" by simp
    then have "digit_char (n mod 10) \<noteq> CHR ''-''" by (rule digit_char_not_minus)
    with False 1 show ?thesis by (subst digits.simps) auto
  qed
qed

lemma digits_inj: "digits n = digits m \<Longrightarrow> n = m"
proof (induction n arbitrary: m rule: digits.induct)
  case (1 n)
  show ?case
  proof (cases "n < 10")
    case n: True
    show ?thesis
    proof (cases "m < 10")
      case True
      with n "1.prems" show ?thesis
        using digit_char_inj[of n m] by (simp add: digits.simps[of n] digits.simps[of m])
    next
      case False
      with n "1.prems" have "[digit_char n] = digits (m div 10) @ [digit_char (m mod 10)]"
        by (simp add: digits.simps[of n] digits.simps[of m])
      then have "digits (m div 10) = []" by (simp add: Cons_eq_append_conv)
      then show ?thesis using digits_not_Nil by blast
    qed
  next
    case n: False
    show ?thesis
    proof (cases "m < 10")
      case True
      with n "1.prems" have "digits (n div 10) @ [digit_char (n mod 10)] = [digit_char m]"
        by (simp add: digits.simps[of n] digits.simps[of m])
      then have "digits (n div 10) = []" by (simp add: append_eq_Cons_conv)
      then show ?thesis using digits_not_Nil by blast
    next
      case False
      with n "1.prems" have e: "digits (n div 10) = digits (m div 10)"
          "digit_char (n mod 10) = digit_char (m mod 10)"
        by (simp_all add: digits.simps[of n] digits.simps[of m])
      have d: "n div 10 = m div 10" using "1.IH"[OF n e(1)] .
      have "n mod 10 = m mod 10" using e(2) digit_char_inj[of "n mod 10" "m mod 10"] by simp
      with d show ?thesis by (metis div_mult_mod_eq)
    qed
  qed
qed

lemma str_int_inj: "str_int i = str_int j \<Longrightarrow> i = j"
proof -
  assume e: "str_int i = str_int j"
  have hd_digit: "\<And>n. hd (digits n) \<noteq> CHR ''-''"
    using digits_no_minus digits_not_Nil by (metis hd_in_set)
  show "i = j"
  proof (cases "i < 0")
    case i: True
    show ?thesis
    proof (cases "j < 0")
      case True
      with i e have "digits (nat (- i)) = digits (nat (- j))" by (simp add: str_int_def)
      then have "nat (- i) = nat (- j)" by (rule digits_inj)
      with i True show ?thesis by simp
    next
      case False
      with i e have "CHR ''-'' # digits (nat (- i)) = digits (nat j)" by (simp add: str_int_def)
      then have "hd (digits (nat j)) = CHR ''-''" by (metis list.sel(1))
      with hd_digit show ?thesis by blast
    qed
  next
    case i: False
    show ?thesis
    proof (cases "j < 0")
      case True
      with i e have "digits (nat i) = CHR ''-'' # digits (nat (- j))" by (simp add: str_int_def)
      then have "hd (digits (nat i)) = CHR ''-''" by (metis list.sel(1))
      with hd_digit show ?thesis by blast
    next
      case False
      with i e have "digits (nat i) = digits (nat j)" by (simp add: str_int_def)
      then have "nat i = nat j" by (rule digits_inj)
      with i False show ?thesis by simp
    qed
  qed
qed

lemma insert_many_ticks: "ticks (fst (insert_many micros clk w c as)) = ticks w + 3 * length as"
  by (induction as arbitrary: w) (simp_all add: split_beta insert_db_ticks)

lemma insert_many_ids:
  "snd (insert_many micros clk w c as) =
     map (\<lambda>i. str_int (micros (clk (ticks w + 3 * i)))) [0..<length as]"
proof (induction as arbitrary: w)
  case Nil
  then show ?case by simp
next
  case (Cons a as)
  have "snd (insert_many micros clk w c (a # as)) =
      snd (insert_db micros clk w c a) # snd (insert_many micros clk (fst (insert_db micros clk w c a)) c as)"
    by (simp add: split_beta)
  also have "\<dots> = str_int (micros (clk (ticks w))) #
      map (\<lambda>i. str_int (micros (clk (ticks w + 3 + 3 * i)))) [0..<length as]"
    by (simp add: Cons.IH insert_db_id insert_db_ticks)
  also have "\<dots> = map (\<lambda>i. str_int (micros (clk (ticks w + 3 * i)))) [0..<length (a # as)]"
    by (simp add: map_upt_Suc add.assoc del: upt_Suc)
  finally show ?case .
qed

lemma insert_many_ids_distinct:
  assumes d: "distinct (map (\<lambda>i. micros (clk (ticks w + 3 * i))) [0..<length as])"
  shows "distinct (snd (insert_many micros clk w c as))"
proof -
  let ?xs = "map (\<lambda>i. micros (clk (ticks w + 3 * i))) [0..<length as]"
  have e: "snd (insert_many micros clk w c as) = map str_int ?xs"
    by (simp add: insert_many_ids comp_def)
  have inj: "inj_on str_int (set ?xs)"
    by (rule inj_onI) (rule str_int_inj)
  have "distinct (map str_int ?xs)"
    using d inj distinct_map by blast
  then show ?thesis by (simp only: e)
qed

lemma insert_db_documents:
  "documents (fst (insert_db micros clk w c a)) c = documents w c @ [a]"
  by (simp add: documents_def insert_db_map_of)

lemma insert_many_stored:
  "distinct as \<and> set as \<inter> set (documents w c) = {} \<Longrightarrow>
   documents (fst (insert_many micros clk w c as)) c = documents w c @ as \<and>
   map (\<lambda>a. map_of (heap (fst (insert_many micros clk w c as)) a) ''_id'')
       (documents (fst (insert_many micros clk w c as)) c) =
     map (\<lambda>a. map_of (heap w a) ''_id'') (documents w c) @
     map (\<lambda>i. Some (JStr i)) (snd (insert_many micros clk w c as))"
proof (induction as arbitrary: w)
  case Nil
  then show ?case by simp
next
  case (Cons a as)
  define w1 where "w1 = fst (insert_db micros clk w c a)"
  have docs1: "documents w1 c = documents w c @ [a]"
    by (simp add: w1_def insert_db_documents)
  have d1: "distinct as \<and> set as \<inter> set (documents w1 c) = {}"
    using Cons.prems by (auto simp: docs1)
  have fresh: "a \<notin> set (documents w c)" using Cons.prems by auto
  have old: "map (\<lambda>x. map_of (heap w1 x) ''_id'') (documents w c) =
      map (\<lambda>x. map_of (heap w x) ''_id'') (documents w c)"
    using fresh by (auto simp: w1_def insert_db_heap)
  have new: "map_of (heap w1 a) ''_id'' = Some (JStr (snd (insert_db micros clk w c a)))"
    by (simp add: w1_def insert_db_heap insert_db_id AList.update_conv')
  have f: "fst (insert_many micros clk w c (a # as)) = fst (insert_many micros clk w1 c as)"
    by (simp add: w1_def split_beta)
  have s: "snd (insert_many micros clk w c (a # as)) =
      snd (insert_db micros clk w c a) # snd (insert_many micros clk w1 c as)"
    by (simp add: w1_def split_beta)
  have ih1: "documents (fst (insert_many micros clk w1 c as)) c = documents w c @ a # as"
    using Cons.IH[OF d1] by (simp add: docs1)
  have ih2: "map (\<lambda>x. map_of (heap (fst (insert_many micros clk w1 c as)) x) ''_id'')
        (documents (fst (insert_many micros clk w1 c as)) c) =
      map (\<lambda>x. map_of (heap w1 x) ''_id'') (documents w1 c) @
      map (\<lambda>i. Some (JStr i)) (snd (insert_many micros clk w1 c as))"
    using Cons.IH[OF d1] by blast
  show ?case
    unfolding f s by (simp only: ih2) (simp add: ih1 docs1 old new)
qed

lemma insert_many_two:
  "insert_many micros clk w c [a, b] =
     (fst (insert_db micros clk (fst (insert_db micros clk w c a)) c b),
      [snd (insert_db micros clk w c a), snd (insert_db micros clk (fst (insert_db micros clk w c a)) c b)])"
  by (simp add: split_beta)





lemma update_loop_ticks_mono: "ticks w \<le> ticks (fst (update_loop clk w as q p n))"
proof (induction as arbitrary: w n)
  case Nil
  then show ?case by simp
next
  case (Cons a as)
  show ?case
  proof (cases "matches (heap w a) q")
    case True
    define w3 where "w3 = setitem
        (snd (time_time clk (w\<lparr>heap := (heap w)(a := dict_update (heap w a) p)\<rparr>)))
        a ''_modified'' (JFloat (clk (ticks w)))"
    have step: "update_loop clk w (a # as) q p n = update_loop clk w3 as q p (n + 1)"
      using True by (simp add: w3_def time_time_def Let_def)
    have "ticks w3 = Suc (ticks w)" by (simp add: w3_def time_time_def setitem_def)
    with Cons.IH[of w3 "n + 1"] show ?thesis unfolding step by simp
  next
    case False
    with Cons.IH[of w n] show ?thesis by simp
  qed
qed

























subsection \<open>Delete with an empty query\<close>

text \<open>
  Claim C5. For every collection \<open>c\<close>, \<open>delete(c, {})\<close> returns the number of documents
  \<open>c\<close> held before the call (what \<open>count(c)\<close> gave), and afterwards \<open>c\<close> holds no document.
\<close>

theorem delete_empty_query_removes_all:
  "snd (delete w c []) = count w c None \<and>
   count (fst (delete w c [])) c None = 0 \<and>
   documents (fst (delete w c [])) c = []"
  by (simp add: delete_def delete_test_def count_def find_db_def documents_def Let_def
      save_data_def AList.update_conv' split: option.splits)

subsection \<open>Queries that match nothing\<close>

text \<open>
  Claim C6 fails on the code, for \<open>delete\<close>. The query \<open>{"email": None}\<close> matches no
  document of \<open>users\<close>: \<open>find\<close> returns nothing and \<open>count\<close> gives 0. Yet \<open>delete\<close> with
  that query returns 2, leaves the collection empty and writes the database to the file,
  because its test reads an absent key as \<open>None\<close>.
\<close>

theorem delete_without_match_is_not_a_no_op:
  "find_db ex_world ''users'' (Some [(''email'', JNull)]) = [] \<and>
   count ex_world ''users'' (Some [(''email'', JNull)]) = 0 \<and>
   snd (delete ex_world ''users'' [(''email'', JNull)]) = 2 \<and>
   documents (fst (delete ex_world ''users'' [(''email'', JNull)])) ''users'' = [] \<and>
   saved ex_world = [] \<and>
   saved (fst (delete ex_world ''users'' [(''email'', JNull)])) = [[(''users'', [])]]"
  by (simp add: find_db_def count_def delete_def delete_test_def dict_get_def documents_def
      Let_def save_data_def ex_world_simps ex_heap_simps)

text \<open>
  What does hold: an \<open>update\<close> whose query finds nothing returns 0 and leaves the world as
  it was, with no new entry in \<open>saved\<close>; so does a \<open>delete\<close> whose query asks for no
  \<open>None\<close> value.
\<close>

lemma find_nothing_iff:
  "find_db w c (Some q) = [] \<longleftrightarrow> (\<forall>a\<in>set (documents w c). \<not> matches (heap w a) q)"
  by (simp add: find_db_filter filter_empty_conv)

lemma update_finds_nothing:
  "find_db w c (Some q) = [] \<Longrightarrow> update clk w c q p = (w, 0)"
  by (simp add: find_nothing_iff update_no_match)

lemma delete_test_agrees:
  "JNull \<notin> snd ` set q \<Longrightarrow> delete_test d q = matches d q"
  by (induction q) (auto simp: delete_test_def dict_get_def split: option.splits if_splits)

lemma delete_finds_nothing:
  "JNull \<notin> snd ` set q \<Longrightarrow> find_db w c (Some q) = [] \<Longrightarrow> delete w c q = (w, 0)"
  by (simp add: find_nothing_iff delete_no_match delete_test_agrees)

subsection \<open>Collections that do not exist\<close>

text \<open>
  Claim C7. For a collection name that is not in the database, \<open>find\<close> returns the empty
  list, \<open>count\<close> returns 0, and \<open>update\<close> and \<open>delete\<close> return 0 and leave the world as it
  was. The operations are total functions with no error result: none of them raises.
\<close>

theorem missing_collection_is_not_an_error:
  "map_of (data w) c = None \<Longrightarrow>
     find_db w c query = [] \<and> count w c query = 0 \<and>
     update clk w c q p = (w, 0) \<and> delete w c q = (w, 0)"
  by (simp add: find_db_def count_def update_def delete_def)

theorem missing_collection_is_not_an_error_witness:
  "find_db ex_world ''orders'' None = [] \<and> count ex_world ''orders'' None = 0 \<and>
   update ex_clk ex_world ''orders'' [] [(''age'', JInt 1)] = (ex_world, 0) \<and>
   delete ex_world ''orders'' [] = (ex_world, 0)"
  using missing_collection_is_not_an_error [of ex_world "''orders''" None ex_clk "[]"
      "[(''age'', JInt 1)]"]
  by (simp add: ex_world_simps)

subsection \<open>Reserved fields under update\<close>




subsection \<open>The test of delete and the test of find\<close>

text \<open>
  Claim C2 fails on the code. \<open>find\<close> and \<open>update\<close> ask for the key to be in the document;
  \<open>delete\<close> reads it with \<open>doc.get\<close>, which gives \<open>None\<close> for an absent key. With the query
  \<open>{"email": None}\<close> on two documents that have no \<open>email\<close>, \<open>find\<close> returns nothing and
  \<open>delete\<close> removes both.
\<close>

theorem delete_null_query_differs_from_find:
  "find_db ex_world ''users'' (Some [(''email'', JNull)]) = [] \<and>
   delete ex_world ''users'' [(''email'', JNull)] =
     (save_data (ex_world\<lparr>data := [(''users'', [])]\<rparr>), 2)"
  by (simp add: find_db_def delete_def delete_test_def dict_get_def documents_def Let_def
      ex_world_simps ex_heap_simps)

subsection \<open>What find matches\<close>

text \<open>
  Claim C3, as the code has it. \<open>find\<close> returns, in the collection's order, the documents
  in which every key of the query is present with a value that Python's \<open>==\<close> accepts.
  That equality tells strings and \<open>None\<close> from everything else (the number 30 never matches
  the string "30"), but not the numeric types from each other: a query value that is an
  \<open>int\<close> or a \<open>bool\<close> matches every stored \<open>bool\<close>, \<open>int\<close> or \<open>float\<close> of the same numeric
  value, so \<open>True\<close> matches the number 1.
\<close>

theorem find_matches_by_python_equality:
  "find_db w c (Some q) =
     filter (\<lambda>a. \<forall>(k, v)\<in>set q. \<exists>x. map_of (heap w a) k = Some x \<and> py_eq x v)
       (documents w c) \<and>
   (py_eq x (JStr s) \<longleftrightarrow> x = JStr s) \<and>
   (py_eq x JNull \<longleftrightarrow> x = JNull) \<and>
   (py_eq x (JInt i) \<longleftrightarrow> num_of x = Some (of_int i)) \<and>
   (py_eq x (JBool b) \<longleftrightarrow> num_of x = Some (if b then 1 else 0))"
  using find_db_filter [of w c q] matches_iff
    py_eq_str_right py_eq_null_right py_eq_int_right py_eq_bool_right
  by presburger

theorem find_matches_by_python_equality_witness:
  "find_db ex_world ''users'' (Some [(''age'', JInt 30)]) = [0] \<and>
   \<not> py_eq (JInt 30) (JStr ''30'') \<and> py_eq (JFloat 1) (JBool True)"
  using find_matches_by_python_equality [of ex_world "''users''" "[(''age'', JInt 30)]"
      "JInt 30" "''30''" 0 False]
  by (simp add: documents_def ex_world_simps ex_heap_simps)

text \<open>The query \<open>{"flag": True}\<close> returns the document whose \<open>flag\<close> is the number 1.\<close>

theorem find_true_matches_one:
  "find_db ex_world ''users'' (Some [(''flag'', JBool True)]) = [1] \<and>
   map_of (heap ex_world 1) ''flag'' = Some (JInt 1)"
  by (simp add: find_db_def documents_def ex_world_simps ex_heap_simps)

subsection \<open>What find returns\<close>




subsection \<open>The other collections\<close>




subsection \<open>Identifiers\<close>

text \<open>
  Claim C8, as the code has it. The identifier is \<open>str(int(t * 1000000))\<close> for the clock
  reading \<open>t\<close>, so it is as unique as the numbers \<open>int(t * 1000000)\<close> are; \<open>micros\<close> stands
  for that computation, whatever the float product gives. When the numbers \<open>micros t\<close>
  for the readings \<open>t\<close> taken for the identifiers of \<open>n\<close> successive inserts are pairwise
  distinct, the \<open>n\<close> returned identifiers are pairwise distinct. When moreover the inserted
  documents are \<open>n\<close> different objects, none of them already in the collection, the \<open>_id\<close>
  fields stored in the collection afterwards are those stored before followed by the
  returned identifiers; they are unique when those stored before were unique and none of
  them is a returned identifier.
\<close>

theorem insert_ids_distinct:
  "distinct (map (\<lambda>i. micros (clk (ticks w + 3 * i))) [0..<length as]) \<Longrightarrow>
   distinct (snd (insert_many micros clk w c as)) \<and>
   (distinct as \<and> set as \<inter> set (documents w c) = {} \<longrightarrow>
      stored_ids (fst (insert_many micros clk w c as)) c =
        stored_ids w c @ map (\<lambda>i. Some (JStr i)) (snd (insert_many micros clk w c as))) \<and>
   (distinct as \<and> set as \<inter> set (documents w c) = {} \<and> distinct (stored_ids w c) \<and>
    (\<forall>i\<in>set (snd (insert_many micros clk w c as)). Some (JStr i) \<notin> set (stored_ids w c)) \<longrightarrow>
      distinct (stored_ids (fst (insert_many micros clk w c as)) c))"
proof -
  assume d: "distinct (map (\<lambda>i. micros (clk (ticks w + 3 * i))) [0..<length as])"
  have ids: "distinct (snd (insert_many micros clk w c as))"
    using d by (rule insert_many_ids_distinct)
  have new_ids: "distinct (map (\<lambda>i. Some (JStr i)) (snd (insert_many micros clk w c as)))"
    using ids by (simp add: distinct_map inj_on_def)
  have appended: "distinct as \<and> set as \<inter> set (documents w c) = {} \<longrightarrow>
      stored_ids (fst (insert_many micros clk w c as)) c =
        stored_ids w c @ map (\<lambda>i. Some (JStr i)) (snd (insert_many micros clk w c as))"
    unfolding stored_ids_def using insert_many_stored[where w = w and c = c and as = as and clk = clk and micros = micros] by blast
  have unique: "distinct as \<and> set as \<inter> set (documents w c) = {} \<and>
      distinct (stored_ids w c) \<and>
      (\<forall>i\<in>set (snd (insert_many micros clk w c as)). Some (JStr i) \<notin> set (stored_ids w c)) \<longrightarrow>
      distinct (stored_ids (fst (insert_many micros clk w c as)) c)"
  proof
    assume h: "distinct as \<and> set as \<inter> set (documents w c) = {} \<and>
      distinct (stored_ids w c) \<and>
      (\<forall>i\<in>set (snd (insert_many micros clk w c as)). Some (JStr i) \<notin> set (stored_ids w c))"
    with appended have e: "stored_ids (fst (insert_many micros clk w c as)) c =
        stored_ids w c @ map (\<lambda>i. Some (JStr i)) (snd (insert_many micros clk w c as))"
      by blast
    from h have "set (stored_ids w c) \<inter>
        set (map (\<lambda>i. Some (JStr i)) (snd (insert_many micros clk w c as))) = {}"
      by auto
    with h new_ids show "distinct (stored_ids (fst (insert_many micros clk w c as)) c)"
      by (simp only: e distinct_append)
  qed
  from ids appended unique show ?thesis by blast
qed

theorem insert_ids_distinct_witness:
  "distinct (snd (insert_many ex_micros ex_clk ex_world ''users'' [3, 4])) \<and>
   stored_ids (fst (insert_many ex_micros ex_clk ex_world ''users'' [3, 4])) ''users'' =
     stored_ids ex_world ''users'' @
     map (\<lambda>i. Some (JStr i)) (snd (insert_many ex_micros ex_clk ex_world ''users'' [3, 4])) \<and>
   distinct (stored_ids (fst (insert_many ex_micros ex_clk ex_world ''users'' [3, 4])) ''users'')"
proof -
  have readings: "distinct (map (\<lambda>i. ex_micros (ex_clk (ticks ex_world + 3 * i)))
      [0..<length [3, 4 :: addr]])"
    by (simp add: ex_world_simps ex_clk_def ex_micros_def)
  have objects: "distinct [3, 4 :: addr] \<and>
      set [3, 4] \<inter> set (documents ex_world ''users'') = {}"
    by (simp add: ex_world_documents)
  have before: "stored_ids ex_world ''users'' = [Some (JStr ''1000''), Some (JStr ''2000'')]"
    by (simp add: stored_ids_def ex_world_documents ex_world_simps ex_heap_simps)
  have returned: "snd (insert_many ex_micros ex_clk ex_world ''users'' [3, 4]) =
      [''3000000'', ''6000000'']"
    by (simp add: insert_many_two insert_db_id insert_db_ticks ex_world_simps ex_clk_def
        ex_micros_def str_int_3000000 str_int_6000000 del: insert_many.simps)
  have apart: "\<forall>i\<in>set (snd (insert_many ex_micros ex_clk ex_world ''users'' [3, 4])).
      Some (JStr i) \<notin> set (stored_ids ex_world ''users'')"
    by (simp add: before returned del: insert_many.simps)
  have uniq: "distinct (stored_ids ex_world ''users'')"
    by (simp add: before)
  show ?thesis
    using insert_ids_distinct [OF readings, where c = "''users''"] objects apart uniq by blast
qed

text \<open>
  Two inserts at the same reading return the same identifier; and one object inserted
  twice is stored twice, with the identifier of the second insert in both places.
\<close>

theorem insert_ids_collide:
  "snd (insert_many ex_micros ex_frozen_clk ex_world ''orders'' [3, 4]) = [''3000000'', ''3000000''] \<and>
   snd (insert_many ex_micros ex_clk ex_world ''orders'' [3, 3]) = [''3000000'', ''6000000''] \<and>
   stored_ids (fst (insert_many ex_micros ex_clk ex_world ''orders'' [3, 3])) ''orders'' =
     [Some (JStr ''6000000''), Some (JStr ''6000000'')]"
  by (simp add: stored_ids_def insert_many_two insert_db_id insert_db_ticks insert_db_heap
      insert_db_documents ex_world_documents ex_world_simps ex_clk_def ex_frozen_clk_def
      ex_micros_def str_int_3000000 str_int_6000000 AList.update_conv' del: insert_many.simps)

subsection \<open>Timestamps\<close>




end
